theory Spec2Isabelle
  imports Main "HOL-Library.Sublist"
begin

section \<open>Values of the program\<close>

text \<open>
  The development follows the newest revision of the two classes of the repository:
  \<open>LanguageServerProvider\<close> (the one with \<open>cleanupLanguageServer\<close> and the
  \<open>tar-gzip\<close> archiver) and \<open>ServerInstaller\<close> (the one that asks through
  \<open>window.showPrompt\<close>).

  Everything that is thrown, rejected or stored in an \<open>error\<close> field is a value of
  one datatype: the value \<open>undefined\<close>, a plain string, an \<open>Error\<close> object with its
  message (raised by a collaborator: network, archive library, file removal), and the
  three built-in exceptions the code can provoke itself.
\<close>

datatype error =
    Undefined
  | Str string
  | Error string
  | TypeError
  | SyntaxError
  | AssertionError

text \<open>The text a template string \<open>${err}\<close> produces.\<close>

fun describe :: "error \<Rightarrow> string" where
  "describe Undefined = ''undefined''"
| "describe (Str s) = s"
| "describe (Error m) = ''Error: '' @ m"
| "describe TypeError = ''TypeError''"
| "describe SyntaxError = ''SyntaxError''"
| "describe AssertionError = ''AssertionError''"

text \<open>
  What becomes of an awaited call: it returns, it throws (the promise is rejected), or its
  promise is never settled and the caller stays where it is.
\<close>

datatype 'a outcome = Returned 'a | Thrown error | Pending

datatype Archiver = Zip | Gzip | TarGzip

fun archiverName :: "Archiver \<Rightarrow> string" where
  "archiverName Zip = ''zip''"
| "archiverName Gzip = ''gzip''"
| "archiverName TarGzip = ''tar-gzip''"

text \<open>
  \<open>platformFilename: string | RegExp\<close>. A regular expression is kept as its printed
  form together with the set of names it matches.
\<close>

datatype PlatformFilename =
    Filename string
  | RegExp string "string \<Rightarrow> bool"

fun filenameText :: "PlatformFilename \<Rightarrow> string" where
  "filenameText (Filename s) = s"
| "filenameText (RegExp src m) = src"

fun filenameMatches :: "PlatformFilename \<Rightarrow> string \<Rightarrow> bool" where
  "filenameMatches (Filename s) n = (n = s)"
| "filenameMatches (RegExp src m) n = m n"

record ILanguageServerPackage =
  executable :: string
  platformFilename :: PlatformFilename
  archiver :: "Archiver option"

datatype LanguageServerRepository =
    Github string string
  | UrlPrefix string

record IGithubAsset =
  asset_name :: string
  browser_download_url :: string

text \<open>\<open>IDownloadInfo\<close>; the field \<open>id\<close> is called \<open>ident\<close> here.\<close>

record IDownloadInfo =
  url :: string
  version :: string
  ident :: int
  downloadedTime :: int

record IGithubRelease =
  assets :: "IGithubAsset list"
  release_name :: string
  release_id :: int

section \<open>The world outside the program\<close>

text \<open>
  What \<open>downloadinfo.json\<close> holds: text that \<open>JSON.parse\<close> turns into an
  \<open>IDownloadInfo\<close> (the type the code declares for it), or text that \<open>JSON.parse\<close>
  rejects.
\<close>

datatype content = Json IDownloadInfo | Corrupt

text \<open>
  Every call that leaves the program is written to a log, in order. The calls whose outcome
  the program cannot know (network, extraction, removal, the user's answer) are answered by
  the environment.
\<close>

datatype event =
    Report string
  | HttpsGetJson string
  | HttpsGet string
  | Extract Archiver
  | RimrafSync string
  | ShowPrompt string
  | ShowErrorMessage string
  | ShowInformationMessage string
  | ClientStop
  | ClientStart

fun isHttpsGetJson :: "event \<Rightarrow> bool" where
  "isHttpsGetJson (HttpsGetJson u) = True"
| "isHttpsGetJson e = False"

fun isHttpsGet :: "event \<Rightarrow> bool" where
  "isHttpsGet (HttpsGet u) = True"
| "isHttpsGet e = False"

fun isExtract :: "event \<Rightarrow> bool" where
  "isExtract (Extract a) = True"
| "isExtract e = False"

fun isRimrafSync :: "event \<Rightarrow> bool" where
  "isRimrafSync (RimrafSync f) = True"
| "isRimrafSync e = False"

fun isShowPrompt :: "event \<Rightarrow> bool" where
  "isShowPrompt (ShowPrompt m) = True"
| "isShowPrompt e = False"

fun isNotice :: "event \<Rightarrow> bool" where
  "isNotice (ShowErrorMessage m) = True"
| "isNotice (ShowInformationMessage m) = True"
| "isNotice e = False"

fun isClientStop :: "event \<Rightarrow> bool" where
  "isClientStop ClientStop = True"
| "isClientStop e = False"

fun isClientStart :: "event \<Rightarrow> bool" where
  "isClientStart ClientStart = True"
| "isClientStart e = False"

text \<open>
  The state: which paths exist, what the state file holds, the clock read by
  \<open>Date.now()\<close>, whether the dependent client \<open>needsStop()\<close>, and the log.
  The clock is ideal: only sleeping advances it, by the time slept. Creating a directory
  and writing or unlinking a file succeed; what can fail is what the environment answers.
\<close>

record world =
  files :: "string \<Rightarrow> bool"
  stateFile :: content
  clock :: int
  clientRunning :: bool
  trace :: "event list"

text \<open>
  How a download ends: the response is streamed to the end; or the request fails or is
  answered with a status other than 200; or the response or the file stream breaks after
  the streaming has begun.
\<close>

datatype download = Streamed | Refused error | Broken error

text \<open>
  How an extraction ends: it finishes, or it fails while the archive is read, while it is
  inflated, or while the output (the unpacked entries, the executable) is written.
\<close>

datatype stage = Reading | Inflating | Writing

datatype ending = Finished | Failed stage error

text \<open>
  The environment answers the \<open>n\<close>-th call of each kind (counted from 0 over the whole
  log): the release metadata or the network error, how the artifact download ends, the
  entries an extraction writes and how it ends, the outcome of a removal, the user's answer
  to a prompt or the error the prompt is rejected with, and the errors, if any, that a
  notice of the editor window and the client's \<open>stop()\<close> and \<open>start()\<close> are
  rejected with.
\<close>

record env =
  getJson :: "nat \<Rightarrow> error + IGithubRelease"
  getArtifact :: "nat \<Rightarrow> download"
  unpack :: "nat \<Rightarrow> string list \<times> ending"
  remove :: "nat \<Rightarrow> error option"
  answer :: "nat \<Rightarrow> error + bool"
  notice :: "nat \<Rightarrow> error option"
  stopping :: "nat \<Rightarrow> error option"
  starting :: "nat \<Rightarrow> error option"

definition occurred :: "(event \<Rightarrow> bool) \<Rightarrow> world \<Rightarrow> nat" where
  "occurred kind w = length (filter kind (trace w))"

definition emit :: "event \<Rightarrow> world \<Rightarrow> world" where
  "emit e w = w\<lparr>trace := trace w @ [e]\<rparr>"

definition existsSync :: "world \<Rightarrow> string \<Rightarrow> bool" where
  "existsSync w f = files w f"

text \<open>\<open>utils.checkIfFileExists\<close>: the file can be opened for reading.\<close>

definition checkIfFileExists :: "world \<Rightarrow> string \<Rightarrow> bool" where
  "checkIfFileExists w f = files w f"

definition mkdirSync :: "string \<Rightarrow> world \<Rightarrow> world" where
  "mkdirSync f w = w\<lparr>files := (files w)(f := True)\<rparr>"

definition unlinkSync :: "string \<Rightarrow> world \<Rightarrow> world" where
  "unlinkSync f w = w\<lparr>files := (files w)(f := False)\<rparr>"

text \<open>
  \<open>path.join\<close> of Node, for POSIX paths: the non-empty arguments are put together with
  a slash and the result is normalised. Normalising drops empty and \<open>.\<close> segments,
  lets a \<open>..\<close> segment take away the segment before it (at the root of an absolute
  path it is dropped, at the start of a relative path it stays), and keeps a trailing slash.
\<close>

fun segments :: "string \<Rightarrow> string list" where
  "segments [] = [[]]"
| "segments (c # cs) =
     (if c = CHR ''/'' then [] # segments cs
      else case segments cs of
             [] \<Rightarrow> [[c]]
           | s # ss \<Rightarrow> (c # s) # ss)"

fun collapse :: "bool \<Rightarrow> string list \<Rightarrow> string list \<Rightarrow> string list" where
  "collapse isAbsolute kept [] = rev kept"
| "collapse isAbsolute kept (s # ss) =
     (if s = [] \<or> s = ''.'' then collapse isAbsolute kept ss
      else if s = ''..'' then
        (case kept of
           [] \<Rightarrow> if isAbsolute then collapse isAbsolute [] ss
                 else collapse isAbsolute [''..''] ss
         | t # ts \<Rightarrow> if t = ''..'' then collapse isAbsolute (''..'' # kept) ss
                     else collapse isAbsolute ts ss)
      else collapse isAbsolute (s # kept) ss)"

fun joinSegments :: "string list \<Rightarrow> string" where
  "joinSegments [] = []"
| "joinSegments [s] = s"
| "joinSegments (s # ss) = s @ ''/'' @ joinSegments ss"

definition normalizePath :: "string \<Rightarrow> string" where
  "normalizePath f =
     (if f = [] then ''.''
      else
        (let isAbsolute = (hd f = CHR ''/'');
             trailingSeparator = (last f = CHR ''/'');
             body = joinSegments (collapse isAbsolute [] (segments f))
         in if body = [] then
              (if isAbsolute then ''/'' else if trailingSeparator then ''./'' else ''.'')
            else (if isAbsolute then ''/'' else [])
                 @ body @ (if trailingSeparator then ''/'' else [])))"

definition path_join :: "string \<Rightarrow> string \<Rightarrow> string" where
  "path_join a b =
     normalizePath (if a = [] then b else if b = [] then a else a @ ''/'' @ b)"

definition inside :: "string \<Rightarrow> string \<Rightarrow> bool" where
  "inside d f = (f = d \<or> prefix (d @ ''/'') f)"

text \<open>
  \<open>rimraf.sync\<close>: the path and all below it are gone, or the removal fails (a file is
  locked) and everything is still there.
\<close>

definition rimrafSync :: "env \<Rightarrow> string \<Rightarrow> world \<Rightarrow> (error + unit) \<times> world" where
  "rimrafSync env f w =
     (let n = occurred isRimrafSync w; w1 = emit (RimrafSync f) w
      in case remove env n of
           Some e \<Rightarrow> (Inl e, w1)
         | None \<Rightarrow> (Inr (), w1\<lparr>files := (\<lambda>g. files w1 g \<and> \<not> inside f g)\<rparr>))"

definition sleep :: "int \<Rightarrow> world \<Rightarrow> world" where
  "sleep ms w = w\<lparr>clock := clock w + ms\<rparr>"

section \<open>LanguageServerProvider\<close>

text \<open>
  The fields the constructor is given (\<open>repo\<close> is \<open>providerRepo\<close> here); the
  paths it derives from them are the definitions below.
\<close>

record LanguageServerProvider =
  extensionStoragePath :: string
  languageServerName :: string
  languageServerPackage :: ILanguageServerPackage
  providerRepo :: LanguageServerRepository

definition newLanguageServerProvider ::
  "string \<Rightarrow> string \<Rightarrow> (string \<rightharpoonup> ILanguageServerPackage) \<Rightarrow> string \<Rightarrow>
   LanguageServerRepository \<Rightarrow> error + LanguageServerProvider" where
  "newLanguageServerProvider storagePath name packs platsig r =
     (case packs platsig of
        None \<Rightarrow> Inl (Str ''Platform not supported'')
      | Some pack \<Rightarrow>
          Inr \<lparr>extensionStoragePath = storagePath, languageServerName = name,
               languageServerPackage = pack, providerRepo = r\<rparr>)"

definition languageServerDirectory :: "LanguageServerProvider \<Rightarrow> string" where
  "languageServerDirectory p = path_join (extensionStoragePath p) ''server''"

definition languageServerArchiver :: "LanguageServerProvider \<Rightarrow> Archiver" where
  "languageServerArchiver p =
     (case archiver (languageServerPackage p) of None \<Rightarrow> Zip | Some a \<Rightarrow> a)"

definition languageServerArchive :: "LanguageServerProvider \<Rightarrow> string" where
  "languageServerArchive p =
     languageServerDirectory p @ ''.'' @ archiverName (languageServerArchiver p)"

definition languageServerExe :: "LanguageServerProvider \<Rightarrow> string" where
  "languageServerExe p =
     path_join (languageServerDirectory p) (executable (languageServerPackage p))"

definition localDownloadInfoPath :: "LanguageServerProvider \<Rightarrow> string" where
  "localDownloadInfoPath p = path_join (extensionStoragePath p) ''downloadinfo.json''"

definition saveLocalDownloadInfo :: "LanguageServerProvider \<Rightarrow> IDownloadInfo \<Rightarrow> world \<Rightarrow> world" where
  "saveLocalDownloadInfo p info w =
     w\<lparr>files := (files w)(localDownloadInfoPath p := True), stateFile := Json info\<rparr>"

definition loadLocalDownloadInfo ::
  "LanguageServerProvider \<Rightarrow> world \<Rightarrow> error + IDownloadInfo option" where
  "loadLocalDownloadInfo p w =
     (if \<not> checkIfFileExists w (localDownloadInfoPath p) then Inr None
      else case stateFile w of
             Corrupt \<Rightarrow> Inl SyntaxError
           | Json info \<Rightarrow> Inr (Some info))"

text \<open>
  \<open>fetchDownloadInfo\<close>. With no matching asset \<open>matched_assets[0]\<close> is \<open>undefined\<close>
  and reading its \<open>browser_download_url\<close> throws a \<open>TypeError\<close>.
\<close>

definition fetchDownloadInfo ::
  "env \<Rightarrow> LanguageServerProvider \<Rightarrow> world \<Rightarrow> (error + IDownloadInfo) \<times> world" where
  "fetchDownloadInfo env p w =
     (let pf = platformFilename (languageServerPackage p)
      in case providerRepo p of
           Github r c \<Rightarrow>
             (let api_url = ''https://api.github.com/repos/'' @ r @ ''/releases/'' @ c;
                  n = occurred isHttpsGetJson w;
                  w1 = emit (HttpsGetJson api_url) w
              in case getJson env n of
                   Inl e \<Rightarrow> (Inl e, w1)
                 | Inr api_result \<Rightarrow>
                     (case filter (\<lambda>x. filenameMatches pf (asset_name x)) (assets api_result) of
                        [] \<Rightarrow> (Inl TypeError, w1)
                      | a # rest \<Rightarrow>
                          (Inr \<lparr>url = browser_download_url a,
                                version = release_name api_result,
                                ident = release_id api_result,
                                downloadedTime = clock w1\<rparr>, w1)))
         | UrlPrefix u \<Rightarrow>
             (Inr \<lparr>url = u @ ''/'' @ filenameText pf, version = '''', ident = 0,
                   downloadedTime = clock w\<rparr>, w))"

text \<open>
  \<open>cleanupLanguageServer\<close>: the loop, with \<open>startTime\<close> and \<open>lastError\<close> as
  arguments. An iteration that fails sleeps 100 ms and tries again while less than
  \<open>timeout\<close> has passed.
\<close>

function cleanupLoop ::
  "env \<Rightarrow> LanguageServerProvider \<Rightarrow> int \<Rightarrow> int \<Rightarrow> error \<Rightarrow> world \<Rightarrow> (error + bool) \<times> world" where
  "cleanupLoop env p timeout startTime lastError w =
     (if clock w - startTime < timeout then
        if \<not> existsSync w (languageServerDirectory p) then (Inr False, w)
        else
          (case rimrafSync env (languageServerDirectory p) w of
             (Inl e, w1) \<Rightarrow> cleanupLoop env p timeout startTime e (sleep 100 w1)
           | (Inr u, w1) \<Rightarrow>
               (case rimrafSync env (localDownloadInfoPath p) w1 of
                  (Inl e, w2) \<Rightarrow> cleanupLoop env p timeout startTime e (sleep 100 w2)
                | (Inr u', w2) \<Rightarrow> (Inr True, w2)))
      else (Inl lastError, w))"
  by pat_completeness auto

termination
proof (relation "measure (\<lambda>(env, p, timeout, startTime, lastError, w).
                   nat (timeout - (clock w - startTime)))", goal_cases)
  case 1
  show ?case by simp
next
  case (2 env p timeout startTime lastError w x1 x2 e)
  from 2(3) have "clock x2 = clock w"
    by (auto simp: rimrafSync_def emit_def Let_def split: option.splits)
  with 2(1) show ?case by (simp add: sleep_def)
next
  case (3 env p timeout startTime lastError w x1 x2 u y1 y2 e)
  from 3(3) have "clock x2 = clock w"
    by (auto simp: rimrafSync_def emit_def Let_def split: option.splits)
  moreover from 3(5) have "clock y2 = clock x2"
    by (auto simp: rimrafSync_def emit_def Let_def split: option.splits)
  ultimately show ?case using 3(1) by (simp add: sleep_def)
qed

definition cleanupLanguageServer ::
  "env \<Rightarrow> LanguageServerProvider \<Rightarrow> int \<Rightarrow> world \<Rightarrow> (error + bool) \<times> world" where
  "cleanupLanguageServer env p timeout w = cleanupLoop env p timeout (clock w) Undefined w"

text \<open>
  \<open>utils.httpsGet\<close> with the callback of \<open>downloadLanguageServer\<close>. The promise is
  rejected when the request fails or the status is not 200. Otherwise the callback opens
  the archive file and pipes the response into it; the promise is resolved on the
  \<open>finish\<close> of that stream, and nothing listens to an error of the response or of the
  file, after which the promise stays unsettled.
\<close>

definition httpsGet :: "env \<Rightarrow> LanguageServerProvider \<Rightarrow> string \<Rightarrow> world \<Rightarrow> unit outcome \<times> world" where
  "httpsGet env p u w =
     (let n = occurred isHttpsGet w;
          w1 = emit (HttpsGet u) w;
          w2 = w1\<lparr>files := (files w1)(languageServerArchive p := True)\<rparr>
      in case getArtifact env n of
           Refused e \<Rightarrow> (Thrown e, w1)
         | Broken e \<Rightarrow> (Pending, w2)
         | Streamed \<Rightarrow> (Returned (), w2))"

text \<open>
  The \<open>switch\<close> over \<open>languageServerArchiver\<close>. \<open>zip\<close> and \<open>tar-gzip\<close> write the
  archive's entries where their names lead from the server directory; \<open>gzip\<close> opens
  the executable's path for writing. A failure may come after some entries are written. \<open>zip\<close> awaits \<open>unzip\<close>, which throws whatever
  fails. \<open>gzip\<close> rejects on an error of the read stream, of gunzip and of the output
  stream. \<open>tar-gzip\<close> rejects on an error of the read stream and of gunzip; nothing
  listens to an error of the tar extractor, after which the promise stays unsettled.
\<close>

definition extractArchive ::
  "env \<Rightarrow> LanguageServerProvider \<Rightarrow> world \<Rightarrow> unit outcome \<times> world" where
  "extractArchive env p w =
     (let n = occurred isExtract w;
          w1 = emit (Extract (languageServerArchiver p)) w;
          entries = map (path_join (languageServerDirectory p)) (fst (unpack env n));
          written = (case languageServerArchiver p of
                       Zip \<Rightarrow> entries
                     | Gzip \<Rightarrow> [languageServerExe p]
                     | TarGzip \<Rightarrow> entries);
          w2 = w1\<lparr>files := (\<lambda>g. files w1 g \<or> g \<in> set written)\<rparr>
      in case snd (unpack env n) of
           Finished \<Rightarrow> (Returned (), w2)
         | Failed Reading e \<Rightarrow> (Thrown e, w2)
         | Failed Inflating e \<Rightarrow> (Thrown e, w2)
         | Failed Writing e \<Rightarrow>
             (case languageServerArchiver p of
                Zip \<Rightarrow> (Thrown e, w2)
              | Gzip \<Rightarrow> (Thrown e, w2)
              | TarGzip \<Rightarrow> (Pending, w2)))"

text \<open>
  \<open>downloadLanguageServer\<close>. \<open>window.withProgress\<close> runs the task and passes on
  what it returns or throws; each \<open>progress.report\<close> is logged.
\<close>

definition downloadLanguageServer ::
  "env \<Rightarrow> LanguageServerProvider \<Rightarrow> world \<Rightarrow> unit outcome \<times> world" where
  "downloadLanguageServer env p w =
     (let w1 = (if \<not> existsSync w (extensionStoragePath p)
                then mkdirSync (extensionStoragePath p) w else w);
          w2 = emit (Report (''Looking for '' @ languageServerName p @ '' updates'')) w1
      in case fetchDownloadInfo env p w2 of
           (Inl e, w3) \<Rightarrow> (Thrown e, w3)
         | (Inr downinfo, w3) \<Rightarrow>
        (case loadLocalDownloadInfo p w3 of
           Inl e \<Rightarrow> (Thrown e, w3)
         | Inr localinfo \<Rightarrow>
        (case (case localinfo of
                 None \<Rightarrow> None
               | Some l \<Rightarrow> if ident l = ident downinfo \<and> version l = version downinfo
                           then Some l else None) of
           Some l \<Rightarrow>
             (Returned (), saveLocalDownloadInfo p (l\<lparr>downloadedTime := clock w3\<rparr>) w3)
         | None \<Rightarrow>
        (case cleanupLanguageServer env p 1000 w3 of
           (Inl e, w4) \<Rightarrow> (Thrown e, w4)
         | (Inr removed, w4) \<Rightarrow>
        (let w5 = mkdirSync (languageServerDirectory p) w4;
             w6 = emit (Report (''Downloading '' @ languageServerName p)) w5
         in case httpsGet env p (url downinfo) w6 of
              (Pending, w7) \<Rightarrow> (Pending, w7)
            | (Thrown e, w7) \<Rightarrow> (Thrown e, w7)
            | (Returned u, w7) \<Rightarrow>
        (let w8 = emit (Report (''Extracting '' @ languageServerName p)) w7
         in case extractArchive env p w8 of
              (Pending, w9) \<Rightarrow> (Pending, w9)
            | (Thrown e, w9) \<Rightarrow> (Thrown e, w9)
            | (Returned u', w9) \<Rightarrow>
        (let w10 = unlinkSync (languageServerArchive p) w9
         in (Returned (), saveLocalDownloadInfo p (downinfo\<lparr>downloadedTime := clock w10\<rparr>) w10))))))))"

definition getLanguageServerIfDownloaded :: "LanguageServerProvider \<Rightarrow> world \<Rightarrow> string option" where
  "getLanguageServerIfDownloaded p w =
     (if \<not> existsSync w (languageServerExe p) then None else Some (languageServerExe p))"

definition getLanguageServerVersion ::
  "LanguageServerProvider \<Rightarrow> world \<Rightarrow> error + string option" where
  "getLanguageServerVersion p w =
     (case loadLocalDownloadInfo p w of
        Inl e \<Rightarrow> Inl e
      | Inr None \<Rightarrow> Inr None
      | Inr (Some info) \<Rightarrow> Inr (Some (version info)))"

section \<open>ServerInstaller\<close>

text \<open>
  The dependent client is a handle whose state is in the world: \<open>needsStop()\<close> reads
  it; \<open>stop()\<close> and \<open>start()\<close> are logged and set it, unless they are rejected,
  which leaves it as it is. The prompt and the notices of the editor window are logged
  and can be rejected too.
\<close>

datatype LanguageClient = LanguageClient

definition needsStop :: "world \<Rightarrow> bool" where
  "needsStop w = clientRunning w"

definition stop :: "env \<Rightarrow> world \<Rightarrow> (error + unit) \<times> world" where
  "stop env w =
     (let n = occurred isClientStop w; w1 = emit ClientStop w
      in case stopping env n of
           Some e \<Rightarrow> (Inl e, w1)
         | None \<Rightarrow> (Inr (), w1\<lparr>clientRunning := False\<rparr>))"

definition start :: "env \<Rightarrow> world \<Rightarrow> (error + unit) \<times> world" where
  "start env w =
     (let n = occurred isClientStart w; w1 = emit ClientStart w
      in case starting env n of
           Some e \<Rightarrow> (Inl e, w1)
         | None \<Rightarrow> (Inr (), w1\<lparr>clientRunning := True\<rparr>))"

definition showPrompt :: "env \<Rightarrow> string \<Rightarrow> world \<Rightarrow> (error + bool) \<times> world" where
  "showPrompt env message w = (answer env (occurred isShowPrompt w), emit (ShowPrompt message) w)"

definition showErrorMessage :: "env \<Rightarrow> string \<Rightarrow> world \<Rightarrow> (error + unit) \<times> world" where
  "showErrorMessage env message w =
     (case notice env (occurred isNotice w) of
        Some e \<Rightarrow> (Inl e, emit (ShowErrorMessage message) w)
      | None \<Rightarrow> (Inr (), emit (ShowErrorMessage message) w))"

definition showInformationMessage :: "env \<Rightarrow> string \<Rightarrow> world \<Rightarrow> (error + unit) \<times> world" where
  "showInformationMessage env message w =
     (case notice env (occurred isNotice w) of
        Some e \<Rightarrow> (Inl e, emit (ShowInformationMessage message) w)
      | None \<Rightarrow> (Inr (), emit (ShowInformationMessage message) w))"

record ServerInstaller =
  serverName :: string
  provider :: LanguageServerProvider
  repo :: LanguageServerRepository
  customPath :: "string option"

definition newServerInstaller ::
  "string \<Rightarrow> string \<Rightarrow> (string \<rightharpoonup> ILanguageServerPackage) \<Rightarrow> string \<Rightarrow>
   LanguageServerRepository \<Rightarrow> string option \<Rightarrow> error + ServerInstaller" where
  "newServerInstaller name storagePath packs platsig r custom =
     (case newLanguageServerProvider storagePath name packs platsig r of
        Inl e \<Rightarrow> Inl e
      | Inr p \<Rightarrow> Inr \<lparr>serverName = name, provider = p, repo = r, customPath = custom\<rparr>)"

text \<open>A \<open>string | undefined\<close> used as a condition, and inside a template string.\<close>

definition truthy :: "string option \<Rightarrow> bool" where
  "truthy s = (case s of None \<Rightarrow> False | Some t \<Rightarrow> t \<noteq> [])"

definition interpolate :: "string option \<Rightarrow> string" where
  "interpolate s = (case s of None \<Rightarrow> ''undefined'' | Some t \<Rightarrow> t)"

definition isCustomPath :: "ServerInstaller \<Rightarrow> bool" where
  "isCustomPath i = truthy (customPath i)"

definition path :: "ServerInstaller \<Rightarrow> world \<Rightarrow> string option" where
  "path i w =
     (if truthy (customPath i)
      then (if existsSync w (interpolate (customPath i)) then customPath i else None)
      else getLanguageServerIfDownloaded (provider i) w)"

definition checkInstalled :: "ServerInstaller \<Rightarrow> world \<Rightarrow> bool" where
  "checkInstalled i w =
     (case path i w of
        None \<Rightarrow> False
      | Some f \<Rightarrow> f \<noteq> [] \<and> existsSync w f)"

datatype CheckVersionResult =
    ResultNotInstalled
  | ResultCustomPath
  | ResultDifferent string string
  | ResultSame string

definition checkVersion ::
  "env \<Rightarrow> ServerInstaller \<Rightarrow> world \<Rightarrow> (error + CheckVersionResult) \<times> world" where
  "checkVersion env i w =
     (if truthy (customPath i) then (Inr ResultCustomPath, w)
      else case loadLocalDownloadInfo (provider i) w of
             Inl e \<Rightarrow> (Inl e, w)
           | Inr None \<Rightarrow> (Inr ResultNotInstalled, w)
           | Inr (Some localinfo) \<Rightarrow>
               (let currentVersion = version localinfo
                in case fetchDownloadInfo env (provider i) w of
                     (Inl e, w1) \<Rightarrow> (Inl e, w1)
                   | (Inr latest, w1) \<Rightarrow>
                       (let latestVersion = version latest
                        in (Inr (if currentVersion \<noteq> latestVersion
                                 then ResultDifferent currentVersion latestVersion
                                 else ResultSame currentVersion), w1))))"

definition install :: "env \<Rightarrow> ServerInstaller \<Rightarrow> world \<Rightarrow> unit outcome \<times> world" where
  "install env i w = downloadLanguageServer env (provider i) w"

text \<open>
  \<open>EnsureInstalledResult\<close>: not available with the error, available and already there
  (\<open>installed: false\<close>), available and just installed with the version. \<open>path\<close> and
  \<open>version\<close> are what \<open>this.path!\<close> and \<open>getLanguageServerVersion()!\<close> give at run
  time, \<open>undefined\<close> included.
\<close>

datatype EnsureInstalledResult =
    NotAvailable error
  | Skipped "string option"
  | Installed "string option" "string option"

text \<open>
  \<open>!ask || !(await window.showPrompt(message))\<close>: the prompt is shown only when
  \<open>ask\<close> is set.
\<close>

definition declined :: "env \<Rightarrow> bool \<Rightarrow> string \<Rightarrow> world \<Rightarrow> (error + bool) \<times> world" where
  "declined env ask message w =
     (if \<not> ask then (Inr True, w)
      else case showPrompt env message w of
             (Inl e, w1) \<Rightarrow> (Inl e, w1)
           | (Inr ans, w1) \<Rightarrow> (Inr (\<not> ans), w1))"

text \<open>The \<open>catch\<close> block of \<open>ensureInstalled\<close>.\<close>

definition failedToDownload ::
  "env \<Rightarrow> ServerInstaller \<Rightarrow> error \<Rightarrow> world \<Rightarrow> EnsureInstalledResult outcome \<times> world" where
  "failedToDownload env i err w =
     (case showErrorMessage env (''Failed to download '' @ serverName i @ '': ''
                                 @ describe err) w of
        (Inl e, w1) \<Rightarrow> (Thrown e, w1)
      | (Inr u, w1) \<Rightarrow> (Returned (NotAvailable err), w1))"

definition ensureInstalled ::
  "env \<Rightarrow> ServerInstaller \<Rightarrow> bool \<Rightarrow> bool \<Rightarrow> world \<Rightarrow> EnsureInstalledResult outcome \<times> world" where
  "ensureInstalled env i ask doInstall w =
     (if checkInstalled i w then (Returned (Skipped (path i w)), w)
      else if truthy (customPath i) then
        (Returned (NotAvailable (Str (''Custom server path ('' @ interpolate (customPath i)
                                      @ '') is specified,'' @ '' but the server is not found''))), w)
      else if \<not> doInstall then (Returned (NotAvailable (Str ''doInstall is not set'')), w)
      else
        (let source = (case repo i of Github r c \<Rightarrow> ''GitHub Release'' | UrlPrefix u \<Rightarrow> u);
             message = serverName i @ '' is not found. Download from '' @ source @ ''?''
         in case declined env ask message w of
              (Inl e, w1) \<Rightarrow> (Thrown e, w1)
            | (Inr True, w1) \<Rightarrow> (Returned (NotAvailable (Str ''Cancelled by user'')), w1)
            | (Inr False, w1) \<Rightarrow>
                (case install env i w1 of
                   (Pending, w2) \<Rightarrow> (Pending, w2)
                 | (Thrown err, w2) \<Rightarrow> failedToDownload env i err w2
                 | (Returned u, w2) \<Rightarrow>
                     (case getLanguageServerVersion (provider i) w2 of
                        Inl err \<Rightarrow> failedToDownload env i err w2
                      | Inr v \<Rightarrow> (Returned (Installed (path i w2) v), w2)))))"

record versions =
  oldVersion :: "string option"
  newVersion :: "string option"

text \<open>
  \<open>EnsureUpdatedResult\<close>: the two statuses without action, and \<open>outdated\<close> with
  \<open>updated: false\<close> (versions if known, and the error) or \<open>updated: true\<close>.
\<close>

datatype EnsureUpdatedResult =
    StatusCustomPath
  | StatusUpToDate
  | OutdatedSkipped "versions option" error
  | OutdatedUpdated versions

text \<open>
  The \<open>catch\<close> block of the first \<open>try\<close> of \<open>ensureUpdated\<close>: it shows the error
  and returns it in an outcome. It does not start the client.
\<close>

definition failedToFetch :: "env \<Rightarrow> error \<Rightarrow> world \<Rightarrow> EnsureUpdatedResult outcome \<times> world" where
  "failedToFetch env err w =
     (case showErrorMessage env (''Failed to fetch latest version: '' @ describe err) w of
        (Inl e, w1) \<Rightarrow> (Thrown e, w1)
      | (Inr u, w1) \<Rightarrow> (Returned (OutdatedSkipped None err), w1))"

text \<open>\<open>runningClient?.start()\<close> that is not awaited: called, its outcome dropped.\<close>

definition startUnawaited :: "env \<Rightarrow> LanguageClient option \<Rightarrow> world \<Rightarrow> world" where
  "startUnawaited env runningClient w =
     (if runningClient \<noteq> None then snd (start env w) else w)"

text \<open>
  \<open>ensureUpdated\<close>. The first \<open>try\<close> block covers \<open>checkVersion\<close>, the whole
  \<open>notInstalled\<close> case (the awaited \<open>stop()\<close>, \<open>ensureInstalled\<close> and
  \<open>start()\<close>, and the \<open>assert\<close>) and the notice of the \<open>same\<close> case; whatever is
  thrown there goes to its \<open>catch\<close> block. After it, the prompt, the awaited
  \<open>stop()\<close> and the notice inside the second \<open>catch\<close> block are not inside any
  \<open>try\<close>: what they throw, \<open>ensureUpdated\<close> throws.
\<close>

definition ensureUpdated ::
  "env \<Rightarrow> ServerInstaller \<Rightarrow> bool \<Rightarrow> bool \<Rightarrow> bool \<Rightarrow> LanguageClient option \<Rightarrow> world \<Rightarrow>
   EnsureUpdatedResult outcome \<times> world" where
  "ensureUpdated env i ask doInstall showMessage runningClient w =
     (case checkVersion env i w of
        (Inl err, w1) \<Rightarrow> failedToFetch env err w1
      | (Inr ResultNotInstalled, w1) \<Rightarrow>
          (case (if runningClient \<noteq> None \<and> needsStop w1 then stop env w1 else (Inr (), w1)) of
             (Inl err, w2) \<Rightarrow> failedToFetch env err w2
           | (Inr u, w2) \<Rightarrow>
          (case ensureInstalled env i ask doInstall w2 of
             (Pending, w3) \<Rightarrow> (Pending, w3)
           | (Thrown err, w3) \<Rightarrow> failedToFetch env err w3
           | (Returned installResult, w3) \<Rightarrow>
          (case (if runningClient \<noteq> None then start env w3 else (Inr (), w3)) of
             (Inl err, w4) \<Rightarrow> failedToFetch env err w4
           | (Inr u', w4) \<Rightarrow>
          (case installResult of
             NotAvailable e \<Rightarrow> (Returned (OutdatedSkipped None e), w4)
           | Skipped f \<Rightarrow> failedToFetch env AssertionError w4
           | Installed f v \<Rightarrow>
               (Returned (OutdatedUpdated \<lparr>oldVersion = None, newVersion = v\<rparr>), w4)))))
      | (Inr ResultCustomPath, w1) \<Rightarrow> (Returned StatusCustomPath, w1)
      | (Inr (ResultSame v), w1) \<Rightarrow>
          (if showMessage then
             (case showInformationMessage env (''Your '' @ serverName i @ '' is up to date.'') w1 of
                (Inl err, w2) \<Rightarrow> failedToFetch env err w2
              | (Inr u, w2) \<Rightarrow> (Returned StatusUpToDate, w2))
           else (Returned StatusUpToDate, w1))
      | (Inr (ResultDifferent currentVersion latestVersion), w1) \<Rightarrow>
          (let vs = \<lparr>oldVersion = Some currentVersion, newVersion = Some latestVersion\<rparr>
           in if \<not> doInstall
              then (Returned (OutdatedSkipped (Some vs) (Str ''doInstall is not set'')), w1)
              else
                (let message = serverName i @ '' has a new release: '' @ latestVersion
                               @ '' (current: '' @ currentVersion @ '')''
                 in case declined env ask message w1 of
                      (Inl err, w2) \<Rightarrow> (Thrown err, w2)
                    | (Inr True, w2) \<Rightarrow>
                        (Returned (OutdatedSkipped (Some vs) (Str ''Cancelled by user'')), w2)
                    | (Inr False, w2) \<Rightarrow>
                (case (if runningClient \<noteq> None \<and> needsStop w2 then stop env w2
                       else (Inr (), w2)) of
                   (Inl err, w3) \<Rightarrow> (Thrown err, w3)
                 | (Inr u, w3) \<Rightarrow>
                (case install env i w3 of
                   (Pending, w4) \<Rightarrow> (Pending, w4)
                 | (Thrown err, w4) \<Rightarrow>
                     (case showErrorMessage env (''Failed to upgrade '' @ serverName i
                                                 @ '': '' @ describe err) w4 of
                        (Inl e, w5) \<Rightarrow> (Thrown e, w5)
                      | (Inr u', w5) \<Rightarrow>
                          (Returned (OutdatedSkipped (Some vs) err),
                           startUnawaited env runningClient w5))
                 | (Returned u', w4) \<Rightarrow>
                     (Returned (OutdatedUpdated vs), startUnawaited env runningClient w4))))))"

section \<open>An example installation\<close>

definition examplePackage :: ILanguageServerPackage where
  "examplePackage =
     \<lparr>executable = ''run'', platformFilename = Filename ''tool.zip'', archiver = None\<rparr>"

definition exampleProvider :: LanguageServerProvider where
  "exampleProvider =
     \<lparr>extensionStoragePath = ''/s'', languageServerName = ''tool'',
      languageServerPackage = examplePackage, providerRepo = Github ''o/r'' ''latest''\<rparr>"

definition exampleInstaller :: ServerInstaller where
  "exampleInstaller =
     \<lparr>serverName = ''tool'', provider = exampleProvider,
      repo = Github ''o/r'' ''latest'', customPath = None\<rparr>"

definition exampleRelease :: "string \<Rightarrow> int \<Rightarrow> IGithubRelease" where
  "exampleRelease v n =
     \<lparr>assets = [\<lparr>asset_name = ''tool.zip'', browser_download_url = ''https://h/tool.zip''\<rparr>],
      release_name = v, release_id = n\<rparr>"

text \<open>
  An environment in which the network answers with release \<open>v\<close>, \<open>n\<close>, the download
  works, extraction writes the executable and then finishes or, with an error \<open>x\<close>,
  fails while inflating, the first \<open>k\<close> removals fail (the very first with another
  error than the later ones), the user answers \<open>a\<close>, and the editor window and the
  client do what they are asked.
\<close>

definition exampleEnv :: "string \<Rightarrow> int \<Rightarrow> error option \<Rightarrow> nat \<Rightarrow> bool \<Rightarrow> env" where
  "exampleEnv v n x k a =
     \<lparr>getJson = (\<lambda>j. Inr (exampleRelease v n)),
      getArtifact = (\<lambda>j. Streamed),
      unpack = (\<lambda>j. ([''run''], case x of None \<Rightarrow> Finished | Some e \<Rightarrow> Failed Inflating e)),
      remove = (\<lambda>j. if j < k then Some (Error (if j = 0 then ''EBUSY'' else ''EPERM''))
                     else None),
      answer = (\<lambda>j. Inr a),
      notice = (\<lambda>j. None),
      stopping = (\<lambda>j. None),
      starting = (\<lambda>j. None)\<rparr>"

text \<open>Nothing on disk, and an installation of release \<open>v\<close>, \<open>n\<close> made at time 0.\<close>

definition emptyWorld :: world where
  "emptyWorld =
     \<lparr>files = (\<lambda>f. False), stateFile = Corrupt, clock = 5, clientRunning = True, trace = []\<rparr>"

definition installedWorld :: "string \<Rightarrow> int \<Rightarrow> world" where
  "installedWorld v n =
     \<lparr>files = (\<lambda>f. f \<in> {''/s'', ''/s/server'', ''/s/server/run'', ''/s/downloadinfo.json''}),
      stateFile = Json \<lparr>url = ''https://h/tool.zip'', version = v, ident = n, downloadedTime = 0\<rparr>,
      clock = 5, clientRunning = True, trace = []\<rparr>"

text \<open>The executable is on disk but the state file is not.\<close>

definition strayWorld :: world where
  "strayWorld =
     \<lparr>files = (\<lambda>f. f \<in> {''/s'', ''/s/server'', ''/s/server/run''}),
      stateFile = Corrupt, clock = 5, clientRunning = True, trace = []\<rparr>"

text \<open>The state file is on disk and does not parse.\<close>

definition corruptWorld :: world where
  "corruptWorld =
     \<lparr>files = (\<lambda>f. f \<in> {''/s'', ''/s/downloadinfo.json''}),
      stateFile = Corrupt, clock = 5, clientRunning = True, trace = []\<rparr>"


text \<open>The same installation with a \<open>tar-gzip\<close> package.\<close>

definition tarballInstaller :: ServerInstaller where
  "tarballInstaller =
     exampleInstaller\<lparr>provider :=
       exampleProvider\<lparr>languageServerPackage :=
         \<lparr>executable = ''run'', platformFilename = Filename ''tool.zip'',
          archiver = Some TarGzip\<rparr>\<rparr>\<rparr>"

section \<open>Notions used in the statements\<close>


text \<open>
  The installation's paths are apart: the state file is not the storage directory, the
  archive or the executable and is not inside the server directory, which is not the
  storage directory. This is so unless the package's \<open>executable\<close> leads out of the
  server directory to the state file.
\<close>

definition separatePaths :: "LanguageServerProvider \<Rightarrow> bool" where
  "separatePaths p =
     (localDownloadInfoPath p \<noteq> extensionStoragePath p
      \<and> localDownloadInfoPath p \<noteq> languageServerArchive p
      \<and> localDownloadInfoPath p \<noteq> languageServerExe p
      \<and> \<not> inside (languageServerDirectory p) (localDownloadInfoPath p)
      \<and> languageServerDirectory p \<noteq> extensionStoragePath p)"


section \<open>The paths of the example\<close>

lemma example_paths:
  "extensionStoragePath exampleProvider = ''/s''"
  "languageServerDirectory exampleProvider = ''/s/server''"
  "languageServerArchive exampleProvider = ''/s/server.zip''"
  "languageServerExe exampleProvider = ''/s/server/run''"
  "localDownloadInfoPath exampleProvider = ''/s/downloadinfo.json''"
  by code_simp+

lemma example_installer:
  "provider exampleInstaller = exampleProvider"
  "customPath exampleInstaller = None"
  by (simp_all add: exampleInstaller_def)

lemma example_separatePaths: "separatePaths exampleProvider"
  by code_simp

text \<open>
  With \<open>../downloadinfo.json\<close> as the package's executable the executable's path is the
  state file.
\<close>

lemma executable_can_be_state_file:
  "languageServerExe (exampleProvider\<lparr>languageServerPackage :=
      \<lparr>executable = ''../downloadinfo.json'', platformFilename = Filename ''tool.gz'',
       archiver = Some Gzip\<rparr>\<rparr>) = ''/s/downloadinfo.json''"
  by code_simp

section \<open>The install record\<close>

text \<open>
  C8. \<open>loadLocalDownloadInfo\<close> answers "absent" exactly when the state file is missing;
  when the file is there and does not parse, the caller gets the parse error.
\<close>

theorem loadLocalDownloadInfo_error_policy:
  "(loadLocalDownloadInfo p w = Inr None) = (\<not> checkIfFileExists w (localDownloadInfoPath p))
   \<and> (checkIfFileExists w (localDownloadInfoPath p) \<and> stateFile w = Corrupt
        \<longrightarrow> loadLocalDownloadInfo p w = Inl SyntaxError)"
  by (simp add: loadLocalDownloadInfo_def split: content.splits)

theorem loadLocalDownloadInfo_error_policy_witness:
  "\<not> checkIfFileExists emptyWorld (localDownloadInfoPath exampleProvider)
   \<and> loadLocalDownloadInfo exampleProvider emptyWorld = Inr None
   \<and> checkIfFileExists corruptWorld (localDownloadInfoPath exampleProvider)
   \<and> stateFile corruptWorld = Corrupt
   \<and> loadLocalDownloadInfo exampleProvider corruptWorld = Inl SyntaxError"
  using loadLocalDownloadInfo_error_policy [of exampleProvider emptyWorld]
        loadLocalDownloadInfo_error_policy [of exampleProvider corruptWorld]
  by (simp add: checkIfFileExists_def emptyWorld_def corruptWorld_def example_paths)

section \<open>Deciding what is installed\<close>

text \<open>
  C9. With a custom path set (\<open>isCustomPath\<close>), \<open>checkVersion\<close> answers
  \<open>customPath\<close> whatever the state file and the remote repository hold, and leaves the
  world as it was: nothing is added to the log, so no network call is made.
\<close>

theorem checkVersion_customPath:
  "isCustomPath i \<Longrightarrow> checkVersion env i w = (Inr ResultCustomPath, w)"
  by (simp add: checkVersion_def isCustomPath_def)

theorem checkVersion_customPath_witness:
  "isCustomPath (exampleInstaller\<lparr>customPath := Some ''/bin/tool''\<rparr>)
   \<and> checkVersion (exampleEnv ''v2'' 2 None 0 True)
        (exampleInstaller\<lparr>customPath := Some ''/bin/tool''\<rparr>) (installedWorld ''v1'' 1)
     = (Inr ResultCustomPath, installedWorld ''v1'' 1)"
proof -
  have h: "isCustomPath (exampleInstaller\<lparr>customPath := Some ''/bin/tool''\<rparr>)"
    by (simp add: isCustomPath_def truthy_def)
  show ?thesis using h checkVersion_customPath [OF h] by simp
qed

text \<open>
  C4. The state file is absent, no custom path is configured, a file is at the
  executable's path, and \<open>checkInstalled\<close> is true. \<open>ensureUpdated\<close> then finds
  \<open>notInstalled\<close> (no record), is told by \<open>ensureInstalled\<close> that the server is
  there already, and fails its own \<open>assert(installResult.installed)\<close>. The program
  gets into this state by itself: after the failed update of an installed release the
  record is gone and the executable written by the failed extraction is there.
\<close>

theorem checkInstalled_true_without_record:
  "\<not> checkIfFileExists strayWorld (localDownloadInfoPath (provider exampleInstaller))
   \<and> customPath exampleInstaller = None
   \<and> checkInstalled exampleInstaller strayWorld
   \<and> fst (ensureUpdated (exampleEnv ''v1'' 1 None 0 True) exampleInstaller True True False None
            strayWorld) = Returned (OutdatedSkipped None AssertionError)
   \<and> loadLocalDownloadInfo exampleProvider
        (snd (downloadLanguageServer (exampleEnv ''v2'' 2 (Some (Error ''bad'')) 0 True)
               exampleProvider (installedWorld ''v1'' 1))) = Inr None
   \<and> checkInstalled exampleInstaller
        (snd (downloadLanguageServer (exampleEnv ''v2'' 2 (Some (Error ''bad'')) 0 True)
               exampleProvider (installedWorld ''v1'' 1)))"
  by code_simp

text \<open>
  C10. When \<open>checkInstalled\<close> holds, \<open>ensureInstalled\<close> returns the existing path with
  \<open>installed: false\<close> for every \<open>ask\<close> and \<open>doInstall\<close>, and the world is as it
  was: no prompt, no network call, no change on disk.
\<close>

theorem ensureInstalled_already_installed:
  "checkInstalled i w \<Longrightarrow>
     \<exists>f. path i w = Some f \<and> existsSync w f
        \<and> ensureInstalled env i ask doInstall w = (Returned (Skipped (Some f)), w)"
  by (auto simp: ensureInstalled_def checkInstalled_def split: option.splits)

theorem ensureInstalled_already_installed_witness:
  "checkInstalled exampleInstaller strayWorld
   \<and> ensureInstalled (exampleEnv ''v2'' 2 None 0 False) exampleInstaller True True strayWorld
     = (Returned (Skipped (Some ''/s/server/run'')), strayWorld)"
proof -
  have h: "checkInstalled exampleInstaller strayWorld"
    by code_simp
  have p: "path exampleInstaller strayWorld = Some ''/s/server/run''"
    by code_simp
  show ?thesis
    using h p ensureInstalled_already_installed [OF h, of "exampleEnv ''v2'' 2 None 0 False" True True]
    by auto
qed

text \<open>
  C2. A fresh installation asked for with \<open>ask = false\<close>: nothing is installed, no custom
  path is set, \<open>doInstall\<close> is true, every download and extraction would work, and the
  outcome is "Cancelled by user" with nothing downloaded.
\<close>

theorem ensureInstalled_without_asking_cancels:
  "\<not> checkInstalled exampleInstaller emptyWorld
   \<and> customPath exampleInstaller = None
   \<and> ensureInstalled (exampleEnv ''v1'' 1 None 0 True) exampleInstaller False True emptyWorld
     = (Returned (NotAvailable (Str ''Cancelled by user'')), emptyWorld)"
  by (simp add: emptyWorld_def example_paths example_installer checkInstalled_def
                ensureInstalled_def path_def getLanguageServerIfDownloaded_def truthy_def
                existsSync_def declined_def)

text \<open>
  C3. The stored record and the resolved release have the same version label and different
  release ids, and \<open>checkVersion\<close> answers \<open>same\<close>.
\<close>

theorem checkVersion_ignores_release_id:
  "loadLocalDownloadInfo (provider exampleInstaller) (installedWorld ''v1'' 1)
     = Inr (Some \<lparr>url = ''https://h/tool.zip'', version = ''v1'', ident = 1, downloadedTime = 0\<rparr>)
   \<and> fst (fetchDownloadInfo (exampleEnv ''v1'' 2 None 0 True) (provider exampleInstaller)
           (installedWorld ''v1'' 1))
     = Inr \<lparr>url = ''https://h/tool.zip'', version = ''v1'', ident = 2, downloadedTime = 5\<rparr>
   \<and> fst (checkVersion (exampleEnv ''v1'' 2 None 0 True) exampleInstaller (installedWorld ''v1'' 1))
     = Inr (ResultSame ''v1'')"
  by code_simp

section \<open>Replacing the installation\<close>










text \<open>
  C7. The stored record has the release id and the version label of the freshly resolved
  artifact (and the storage directory that holds the state file exists). Then
  \<open>downloadLanguageServer\<close> succeeds, the log gains no download, no removal and no
  extraction, and the world afterwards is the world before except that the record's
  \<open>downloadedTime\<close> is the current time: the other fields of the record and everything
  on disk are as they were.
\<close>

theorem downloadLanguageServer_noop_refresh:
  assumes "loadLocalDownloadInfo p w = Inr (Some l)"
      and "existsSync w (extensionStoragePath p)"
      and "fst (fetchDownloadInfo env p w) = Inr d"
      and "ident d = ident l" and "version d = version l"
  shows "\<exists>new. downloadLanguageServer env p w
                 = (Returned (), w\<lparr>stateFile := Json (l\<lparr>downloadedTime := clock w\<rparr>),
                                    trace := trace w @ new\<rparr>)
               \<and> (\<forall>e \<in> set new. \<not> isHttpsGet e \<and> \<not> isRimrafSync e \<and> \<not> isExtract e)"
proof -
  from assms(1) have here: "files w (localDownloadInfoPath p)" and json: "stateFile w = Json l"
    by (auto simp: loadLocalDownloadInfo_def checkIfFileExists_def
             split: if_splits content.splits)
  from here have same: "(files w)(localDownloadInfoPath p := True) = files w"
    by (simp add: fun_upd_idem_iff)
  show ?thesis
  proof (cases "providerRepo p")
    case (Github r c)
    let ?new = "[Report (''Looking for '' @ languageServerName p @ '' updates''),
                 HttpsGetJson (''https://api.github.com/repos/'' @ r @ ''/releases/'' @ c)]"
    have "downloadLanguageServer env p w
            = (Returned (), w\<lparr>stateFile := Json (l\<lparr>downloadedTime := clock w\<rparr>),
                               trace := trace w @ ?new\<rparr>)"
      using assms Github here json same
      by (auto simp: downloadLanguageServer_def fetchDownloadInfo_def emit_def occurred_def
                     Let_def loadLocalDownloadInfo_def checkIfFileExists_def
                     saveLocalDownloadInfo_def
               split: sum.splits list.splits)
    moreover have "\<forall>e \<in> set ?new. \<not> isHttpsGet e \<and> \<not> isRimrafSync e \<and> \<not> isExtract e"
      by simp
    ultimately show ?thesis by blast
  next
    case (UrlPrefix u)
    let ?new = "[Report (''Looking for '' @ languageServerName p @ '' updates'')]"
    have "downloadLanguageServer env p w
            = (Returned (), w\<lparr>stateFile := Json (l\<lparr>downloadedTime := clock w\<rparr>),
                               trace := trace w @ ?new\<rparr>)"
      using assms UrlPrefix here json same
      by (auto simp: downloadLanguageServer_def fetchDownloadInfo_def emit_def occurred_def
                     Let_def loadLocalDownloadInfo_def checkIfFileExists_def
                     saveLocalDownloadInfo_def)
    moreover have "\<forall>e \<in> set ?new. \<not> isHttpsGet e \<and> \<not> isRimrafSync e \<and> \<not> isExtract e"
      by simp
    ultimately show ?thesis by blast
  qed
qed

theorem downloadLanguageServer_noop_refresh_witness:
  "downloadLanguageServer (exampleEnv ''v1'' 1 None 0 True) exampleProvider (installedWorld ''v1'' 1)
     = (Returned (), (installedWorld ''v1'' 1)
          \<lparr>stateFile := Json \<lparr>url = ''https://h/tool.zip'', version = ''v1'', ident = 1,
                               downloadedTime = 5\<rparr>,
            trace := [Report ''Looking for tool updates'',
                      HttpsGetJson ''https://api.github.com/repos/o/r/releases/latest'']\<rparr>)"
proof -
  let ?l = "\<lparr>url = ''https://h/tool.zip'', version = ''v1'', ident = 1, downloadedTime = 0\<rparr>"
  let ?d = "\<lparr>url = ''https://h/tool.zip'', version = ''v1'', ident = 1, downloadedTime = 5\<rparr>"
  have a: "loadLocalDownloadInfo exampleProvider (installedWorld ''v1'' 1) = Inr (Some ?l)"
    by code_simp
  have b: "existsSync (installedWorld ''v1'' 1) (extensionStoragePath exampleProvider)"
    by code_simp
  have c: "fst (fetchDownloadInfo (exampleEnv ''v1'' 1 None 0 True) exampleProvider
                 (installedWorld ''v1'' 1)) = Inr ?d"
    by code_simp
  have d: "ident ?d = ident ?l" "version ?d = version ?l" by simp_all
  from downloadLanguageServer_noop_refresh [OF a b c d]
  obtain new where
    "downloadLanguageServer (exampleEnv ''v1'' 1 None 0 True) exampleProvider (installedWorld ''v1'' 1)
       = (Returned (), (installedWorld ''v1'' 1)
            \<lparr>stateFile := Json (?l\<lparr>downloadedTime := clock (installedWorld ''v1'' 1)\<rparr>),
              trace := trace (installedWorld ''v1'' 1) @ new\<rparr>)"
    by blast
  moreover have "trace (snd (downloadLanguageServer (exampleEnv ''v1'' 1 None 0 True)
                               exampleProvider (installedWorld ''v1'' 1)))
     = [Report ''Looking for tool updates'',
        HttpsGetJson ''https://api.github.com/repos/o/r/releases/latest'']"
    by code_simp
  ultimately show ?thesis by (simp add: installedWorld_def)
qed

section \<open>The retry loop of the cleanup\<close>

lemma last_attempt:
  fixes timeout :: int
  assumes "100 * int j < timeout" and "timeout \<le> 100 * int (Suc j)"
  shows "nat ((timeout - 1) div 100) = j"
proof -
  from assms have a: "100 * int j \<le> timeout - 1" and b: "timeout - 1 < 100 * int j + 100"
    by simp_all
  have "(timeout - 1) div 100 = int j"
    using a b by linarith
  then show ?thesis by simp
qed

lemma cleanupLoop_locked:
  assumes "existsSync w (languageServerDirectory p)"
      and "\<forall>k<m. remove env (occurred isRimrafSync w + k) = Some (errs (j + k))"
      and "remove env (occurred isRimrafSync w + m) = None"
      and "remove env (occurred isRimrafSync w + m + 1) = None"
      and "clock w - startTime = 100 * int j"
      and "j = 0 \<longrightarrow> 0 < timeout"
      and "0 < j \<longrightarrow> 100 * int (j - 1) < timeout \<and> lastError = errs (j - 1)"
  shows "fst (cleanupLoop env p timeout startTime lastError w)
           = (if 100 * int (j + m) < timeout then Inr True
              else Inl (errs (nat ((timeout - 1) div 100))))"
  using assms
proof (induction m arbitrary: w j lastError)
  case 0
  show ?case
  proof (cases "100 * int j < timeout")
    case True
    with 0 show ?thesis
      by (simp add: cleanupLoop.simps [of env p timeout startTime lastError w]
                    rimrafSync_def Let_def occurred_def emit_def)
  next
    case False
    with 0 have "0 < j" by (cases j) auto
    with 0 False have "nat ((timeout - 1) div 100) = j - 1"
      using last_attempt [of "j - 1" timeout] by simp
    with 0 False \<open>0 < j\<close> show ?thesis
      by (simp add: cleanupLoop.simps [of env p timeout startTime lastError w])
  qed
next
  case (Suc m)
  show ?case
  proof (cases "100 * int j < timeout")
    case True
    let ?w = "sleep 100 (emit (RimrafSync (languageServerDirectory p)) w)"
    from Suc.prems(2) have now: "remove env (occurred isRimrafSync w) = Some (errs j)"
      by (metis add.right_neutral zero_less_Suc)
    have step: "cleanupLoop env p timeout startTime lastError w
                  = cleanupLoop env p timeout startTime (errs j) ?w"
      using True Suc.prems(1,5) now
      by (simp add: cleanupLoop.simps [of env p timeout startTime lastError w]
                    rimrafSync_def Let_def)
    have "fst (cleanupLoop env p timeout startTime (errs j) ?w)
            = (if 100 * int (Suc j + m) < timeout then Inr True
               else Inl (errs (nat ((timeout - 1) div 100))))"
    proof (rule Suc.IH)
      show "existsSync ?w (languageServerDirectory p)"
        using Suc.prems(1) by (simp add: existsSync_def sleep_def emit_def)
      show "\<forall>k<m. remove env (occurred isRimrafSync ?w + k) = Some (errs (Suc j + k))"
        using Suc.prems(2) by (auto simp: sleep_def occurred_def emit_def)
      show "remove env (occurred isRimrafSync ?w + m) = None"
        using Suc.prems(3) by (simp add: sleep_def occurred_def emit_def)
      show "remove env (occurred isRimrafSync ?w + m + 1) = None"
        using Suc.prems(4) by (simp add: sleep_def occurred_def emit_def)
      show "clock ?w - startTime = 100 * int (Suc j)"
        using Suc.prems(5) by (simp add: sleep_def emit_def)
      show "Suc j = 0 \<longrightarrow> 0 < timeout" by simp
      show "0 < Suc j \<longrightarrow> 100 * int (Suc j - 1) < timeout \<and> errs j = errs (Suc j - 1)"
        using True by simp
    qed
    with step show ?thesis by simp
  next
    case False
    with Suc.prems have "0 < j" by (cases j) auto
    with Suc.prems False have "nat ((timeout - 1) div 100) = j - 1"
      using last_attempt [of "j - 1" timeout] by simp
    with Suc.prems False \<open>0 < j\<close> show ?thesis
      by (simp add: cleanupLoop.simps [of env p timeout startTime lastError w])
  qed
qed

text \<open>
  C6, as the code has it, for a positive \<open>timeout\<close>. Without a server directory the
  call returns \<open>false\<close> and changes nothing. With one, when the next \<open>N\<close> removals
  fail with the errors \<open>errs 0\<close>, ..., \<open>errs (N - 1)\<close> and the one after them
  succeeds (for the directory and for the state file), the call returns \<open>true\<close> if and
  only if \<open>100 * N < timeout\<close>; otherwise it raises the error of the last attempt it made,
  which is attempt number \<open>(timeout - 1) div 100\<close>.
\<close>

theorem cleanupLanguageServer_retry_bound:
  assumes "0 < timeout"
  shows "(\<not> existsSync w (languageServerDirectory p)
            \<longrightarrow> cleanupLanguageServer env p timeout w = (Inr False, w))
       \<and> (existsSync w (languageServerDirectory p)
            \<and> (\<forall>k<N. remove env (occurred isRimrafSync w + k) = Some (errs k))
            \<and> remove env (occurred isRimrafSync w + N) = None
            \<and> remove env (occurred isRimrafSync w + N + 1) = None
            \<longrightarrow> fst (cleanupLanguageServer env p timeout w)
                  = (if 100 * int N < timeout then Inr True
                     else Inl (errs (nat ((timeout - 1) div 100)))))"
proof (intro conjI impI)
  assume "\<not> existsSync w (languageServerDirectory p)"
  with assms show "cleanupLanguageServer env p timeout w = (Inr False, w)"
    by (simp add: cleanupLanguageServer_def
                  cleanupLoop.simps [of env p timeout "clock w" Undefined w])
next
  assume h: "existsSync w (languageServerDirectory p)
            \<and> (\<forall>k<N. remove env (occurred isRimrafSync w + k) = Some (errs k))
            \<and> remove env (occurred isRimrafSync w + N) = None
            \<and> remove env (occurred isRimrafSync w + N + 1) = None"
  have "fst (cleanupLoop env p timeout (clock w) Undefined w)
          = (if 100 * int (0 + N) < timeout then Inr True
             else Inl (errs (nat ((timeout - 1) div 100))))"
    using h assms by (intro cleanupLoop_locked) auto
  then show "fst (cleanupLanguageServer env p timeout w)
                  = (if 100 * int N < timeout then Inr True
                     else Inl (errs (nat ((timeout - 1) div 100))))"
    by (simp add: cleanupLanguageServer_def)
qed

theorem cleanupLanguageServer_retry_bound_witness:
  "(0::int) < 1000
   \<and> \<not> existsSync emptyWorld (languageServerDirectory exampleProvider)
   \<and> cleanupLanguageServer (exampleEnv ''v1'' 1 None 9 True) exampleProvider 1000 emptyWorld
       = (Inr False, emptyWorld)
   \<and> existsSync (installedWorld ''v1'' 1) (languageServerDirectory exampleProvider)
   \<and> fst (cleanupLanguageServer (exampleEnv ''v1'' 1 None 9 True) exampleProvider 1000
            (installedWorld ''v1'' 1)) = Inr True
   \<and> fst (cleanupLanguageServer (exampleEnv ''v1'' 1 None 10 True) exampleProvider 1000
            (installedWorld ''v1'' 1)) = Inl (Error ''EPERM'')"
proof -
  let ?errs = "\<lambda>k::nat. Error (if k = 0 then ''EBUSY'' else ''EPERM'')"
  have t: "(0::int) < 1000" by simp
  have absent: "\<not> existsSync emptyWorld (languageServerDirectory exampleProvider)"
    by (simp add: existsSync_def emptyWorld_def)
  have present: "existsSync (installedWorld ''v1'' 1) (languageServerDirectory exampleProvider)"
    by (simp add: existsSync_def installedWorld_def example_paths)
  have none: "occurred isRimrafSync (installedWorld ''v1'' 1) = 0"
    by (simp add: occurred_def installedWorld_def)
  have nine: "(\<forall>k<9. remove (exampleEnv ''v1'' 1 None 9 True)
                          (occurred isRimrafSync (installedWorld ''v1'' 1) + k) = Some (?errs k))
              \<and> remove (exampleEnv ''v1'' 1 None 9 True)
                   (occurred isRimrafSync (installedWorld ''v1'' 1) + 9) = None
              \<and> remove (exampleEnv ''v1'' 1 None 9 True)
                   (occurred isRimrafSync (installedWorld ''v1'' 1) + 9 + 1) = None"
    by (simp add: none exampleEnv_def)
  have ten: "(\<forall>k<10. remove (exampleEnv ''v1'' 1 None 10 True)
                          (occurred isRimrafSync (installedWorld ''v1'' 1) + k) = Some (?errs k))
              \<and> remove (exampleEnv ''v1'' 1 None 10 True)
                   (occurred isRimrafSync (installedWorld ''v1'' 1) + 10) = None
              \<and> remove (exampleEnv ''v1'' 1 None 10 True)
                   (occurred isRimrafSync (installedWorld ''v1'' 1) + 10 + 1) = None"
    by (simp add: none exampleEnv_def)
  show ?thesis
    using t absent present nine ten
      cleanupLanguageServer_retry_bound [OF t, of emptyWorld exampleProvider
        "exampleEnv ''v1'' 1 None 9 True" 9 ?errs]
      cleanupLanguageServer_retry_bound [OF t, of "installedWorld ''v1'' 1" exampleProvider
        "exampleEnv ''v1'' 1 None 9 True" 9 ?errs]
      cleanupLanguageServer_retry_bound [OF t, of "installedWorld ''v1'' 1" exampleProvider
        "exampleEnv ''v1'' 1 None 10 True" 10 ?errs]
    by simp
qed

text \<open>
  C6, as the specification states it, fails for a timeout of 0: there is no server
  directory, and the call raises \<open>undefined\<close> instead of returning \<open>false\<close>.
\<close>

theorem cleanupLanguageServer_zero_timeout_counterexample:
  "\<not> existsSync emptyWorld (languageServerDirectory exampleProvider)
   \<and> cleanupLanguageServer (exampleEnv ''v1'' 1 None 0 True) exampleProvider 0 emptyWorld
       = (Inl Undefined, emptyWorld)"
  by (simp add: existsSync_def emptyWorld_def cleanupLanguageServer_def
      cleanupLoop.simps [of _ _ 0 5 Undefined])


section \<open>Stopping and restarting the dependent client\<close>

text \<open>
  C5. Two calls of \<open>ensureUpdated\<close> with a running client that leave it stopped.

  Nothing is installed and the prompt of the nested \<open>ensureInstalled\<close> is rejected:
  the client has been stopped, the rejection lands in the \<open>catch\<close> block of the first
  \<open>try\<close>, and the outcome is returned without a \<open>start()\<close>.

  Release 1 of a \<open>tar-gzip\<close> package is installed, release 2 is published, the user
  agrees, and the tar extractor fails: the client has been stopped, the promise of the
  extraction is never settled, and \<open>ensureUpdated\<close> never gets to a \<open>start()\<close>.
\<close>

theorem ensureUpdated_leaves_client_stopped:
  "clientRunning emptyWorld
   \<and> fst (ensureUpdated ((exampleEnv ''v2'' 2 None 0 True)\<lparr>answer := (\<lambda>j. Inl (Error ''closed''))\<rparr>)
            exampleInstaller True True True (Some LanguageClient) emptyWorld)
       = Returned (OutdatedSkipped None (Error ''closed''))
   \<and> trace (snd (ensureUpdated
                   ((exampleEnv ''v2'' 2 None 0 True)\<lparr>answer := (\<lambda>j. Inl (Error ''closed''))\<rparr>)
                   exampleInstaller True True True (Some LanguageClient) emptyWorld))
       = [ClientStop,
          ShowPrompt ''tool is not found. Download from GitHub Release?'',
          ShowErrorMessage ''Failed to fetch latest version: Error: closed'']
   \<and> \<not> clientRunning (snd (ensureUpdated
                   ((exampleEnv ''v2'' 2 None 0 True)\<lparr>answer := (\<lambda>j. Inl (Error ''closed''))\<rparr>)
                   exampleInstaller True True True (Some LanguageClient) emptyWorld))
   \<and> clientRunning (installedWorld ''v1'' 1)
   \<and> fst (ensureUpdated
            ((exampleEnv ''v2'' 2 None 0 True)
               \<lparr>unpack := (\<lambda>j. ([], Failed Writing (Error ''EACCES'')))\<rparr>)
            tarballInstaller True True True (Some LanguageClient) (installedWorld ''v1'' 1))
       = Pending
   \<and> filter (\<lambda>e. isClientStop e \<or> isClientStart e)
        (trace (snd (ensureUpdated
            ((exampleEnv ''v2'' 2 None 0 True)
               \<lparr>unpack := (\<lambda>j. ([], Failed Writing (Error ''EACCES'')))\<rparr>)
            tarballInstaller True True True (Some LanguageClient) (installedWorld ''v1'' 1))))
       = [ClientStop]
   \<and> \<not> clientRunning (snd (ensureUpdated
            ((exampleEnv ''v2'' 2 None 0 True)
               \<lparr>unpack := (\<lambda>j. ([], Failed Writing (Error ''EACCES'')))\<rparr>)
            tarballInstaller True True True (Some LanguageClient) (installedWorld ''v1'' 1)))"
  by code_simp

end
